theory Spec2Isabelle
  imports Complex_Main "HOL-Library.Sublist"
begin

section \<open>Python values used by the backend\<close>

text \<open>
  The exceptions the modelled code can raise.  Every \<^verbatim>\<open>raise\<close>, failed
  subscript and failed dictionary lookup of the source is a branch returning
  \<open>Inl\<close> of one of these.
\<close>

datatype py_error = ValueError | KeyError | IndexError | ZeroDivisionError

text \<open>
  \<^verbatim>\<open>str.replace(old, new)\<close>: every non-overlapping occurrence of \<open>old\<close>,
  scanning from the left, is replaced.  For the empty \<open>old\<close> Python puts
  \<open>new\<close> in front of every character and at the end.
\<close>

function str_replace_ne :: "string \<Rightarrow> string \<Rightarrow> string \<Rightarrow> string" where
  "str_replace_ne old new [] = []"
| "str_replace_ne old new (c # cs) =
     (if old \<noteq> [] \<and> prefix old (c # cs)
      then new @ str_replace_ne old new (drop (length old) (c # cs))
      else c # str_replace_ne old new cs)"
  by pat_completeness auto
termination
  by (relation "measure (\<lambda>(old, new, s). length s)") auto

definition str_replace :: "string \<Rightarrow> string \<Rightarrow> string \<Rightarrow> string" where
  "str_replace old new s =
     (if old = [] then new @ concat (map (\<lambda>c. c # new) s)
      else str_replace_ne old new s)"

text \<open>
  Subscripting a tuple or list with a Python integer: indices \<open>0 .. n-1\<close> and
  the negative indices \<open>-n .. -1\<close> are valid, anything else raises
  \<^verbatim>\<open>IndexError\<close>.
\<close>

definition py_index :: "'a list \<Rightarrow> int \<Rightarrow> py_error + 'a" where
  "py_index xs i =
     (let n = int (length xs) in
      if 0 \<le> i \<and> i < n then Inr (xs ! nat i)
      else if - n \<le> i \<and> i < 0 then Inr (xs ! nat (n + i))
      else Inl IndexError)"

section \<open>The state manager (\<^verbatim>\<open>state_manager.py\<close>)\<close>

text \<open>
  One entry of \<^verbatim>\<open>StateManager.states\<close>: a dictionary with the four keys every
  exercise has and the two keys only the \<^verbatim>\<open>thumb_opposition\<close> entry is created
  with.  The two extra keys are optional: \<^verbatim>\<open>reset\<close> stores a dictionary without
  them, and \<^verbatim>\<open>update_state\<close> reads them with \<^verbatim>\<open>.get(key, default)\<close>.
  Timestamps are the readings of \<^verbatim>\<open>time.time()\<close>, taken as real numbers.
\<close>

record exercise_state =
  current_state :: string
  previous_state :: string
  repetitions :: int
  last_state_change :: real
  sequence_index :: "int option"
  is_touching :: "bool option"

type_synonym states = "string \<rightharpoonup> exercise_state"

definition MIN_STATE_DURATION :: real where
  "MIN_STATE_DURATION = 0.2"

text \<open>\<^verbatim>\<open>exercise_state.get('sequence_index', 0)\<close> and
  \<^verbatim>\<open>exercise_state.get('is_touching', False)\<close>.\<close>

definition get_sequence_index :: "exercise_state \<Rightarrow> int" where
  "get_sequence_index es = (case sequence_index es of None \<Rightarrow> 0 | Some i \<Rightarrow> i)"

definition get_is_touching :: "exercise_state \<Rightarrow> bool" where
  "get_is_touching es = (case is_touching es of None \<Rightarrow> False | Some b \<Rightarrow> b)"

text \<open>
  \<^verbatim>\<open>StateManager.__init__\<close>.  The constructor reads the clock once per entry;
  the five readings are the arguments, in the order of the source.
\<close>

definition init :: "real \<Rightarrow> real \<Rightarrow> real \<Rightarrow> real \<Rightarrow> real \<Rightarrow> states" where
  "init t_oc t_pi t_aa t_to t_fl =
     [''open_close'' \<mapsto>
        \<lparr>current_state = ''OPEN'', previous_state = ''OPEN'', repetitions = 0,
         last_state_change = t_oc, sequence_index = None, is_touching = None\<rparr>,
      ''pinch'' \<mapsto>
        \<lparr>current_state = ''OPEN'', previous_state = ''OPEN'', repetitions = 0,
         last_state_change = t_pi, sequence_index = None, is_touching = None\<rparr>,
      ''abduction_adduction'' \<mapsto>
        \<lparr>current_state = ''CLOSED'', previous_state = ''CLOSED'', repetitions = 0,
         last_state_change = t_aa, sequence_index = None, is_touching = None\<rparr>,
      ''thumb_opposition'' \<mapsto>
        \<lparr>current_state = ''TRACKING'', previous_state = ''TRACKING'', repetitions = 0,
         last_state_change = t_to, sequence_index = Some 0, is_touching = Some False\<rparr>,
      ''finger_lifts'' \<mapsto>
        \<lparr>current_state = ''NONE'', previous_state = ''NONE'', repetitions = 0,
         last_state_change = t_fl, sequence_index = None, is_touching = None\<rparr>]"

text \<open>
  The three branches of \<^verbatim>\<open>update_state\<close> work on the entry of the selected
  exercise.  Each returns the \<^verbatim>\<open>state_changed\<close> flag and the entry as the call
  leaves it; \<open>t\<close> is the clock reading stored in \<^verbatim>\<open>last_state_change\<close>.

  Lines 73--101, the \<^verbatim>\<open>thumb_opposition\<close> branch.
\<close>

definition update_thumb_opposition ::
  "exercise_state \<Rightarrow> real \<Rightarrow> string \<Rightarrow> py_error + (bool \<times> exercise_state)" where
  "update_thumb_opposition es t new_state =
     (let current = current_state es in
      if prefix ''TOUCH_'' new_state then
        (let finger = str_replace ''TOUCH_'' '''' new_state in
         case py_index [''INDEX'', ''MIDDLE'', ''RING'', ''PINKY''] (get_sequence_index es) of
           Inl e \<Rightarrow> Inl e
         | Inr expected \<Rightarrow>
             if finger = expected \<and> \<not> get_is_touching es then
               (let es1 = es\<lparr>is_touching := Some True\<rparr>;
                    es2 = es1\<lparr>sequence_index := Some ((get_sequence_index es1 + 1) mod 4)\<rparr>;
                    es3 = (if sequence_index es2 = Some 0
                           then es2\<lparr>repetitions := repetitions es2 + 1\<rparr> else es2)
                in Inr (True, es3\<lparr>previous_state := current, current_state := new_state,
                                   last_state_change := t\<rparr>))
             else Inr (False, es))
      else if new_state = ''RELEASE'' \<or> new_state = ''TRANSITION'' then
        (if get_is_touching es then
           Inr (True, es\<lparr>is_touching := Some False, previous_state := current,
                          current_state := new_state, last_state_change := t\<rparr>)
         else Inr (False, es))
      else Inr (False, es))"

text \<open>Lines 104--122, the \<^verbatim>\<open>finger_lifts\<close> branch.\<close>

definition update_finger_lifts :: "exercise_state \<Rightarrow> real \<Rightarrow> string \<Rightarrow> bool \<times> exercise_state" where
  "update_finger_lifts es t new_state0 =
     (let current = current_state es;
          new_state = (if new_state0 = ''TRANSITIONING'' then ''TRANSITION'' else new_state0)
      in
      if new_state = ''TRANSITION'' then (False, es)
      else
        (let es1 = (if suffix ''_UP'' current \<and> new_state = ''NONE''
                    then es\<lparr>repetitions := repetitions es + 1\<rparr> else es)
         in
         if new_state \<noteq> current then
           (True, es1\<lparr>previous_state := current, current_state := new_state,
                       last_state_change := t\<rparr>)
         else (False, es1)))"

text \<open>
  Lines 124--157, the debounced branch of every other exercise.  The clock is read
  twice: \<open>t_check\<close> is the reading the elapsed time is computed from (line 125),
  \<open>t\<close> the one stored on acceptance (line 152).
\<close>

definition update_debounced ::
  "string \<Rightarrow> exercise_state \<Rightarrow> real \<Rightarrow> real \<Rightarrow> string \<Rightarrow> bool \<times> exercise_state" where
  "update_debounced exercise_type es t_check t new_state0 =
     (let current = current_state es;
          time_since_change = t_check - last_state_change es;
          new_state = (if new_state0 = ''TRANSITIONING'' then ''TRANSITION'' else new_state0)
      in
      if new_state = ''TRANSITION'' then (False, es)
      else if new_state \<noteq> current \<and> time_since_change \<ge> MIN_STATE_DURATION then
        (let es1 =
           (if exercise_type = ''open_close'' \<or> exercise_type = ''pinch'' then
              (if current = ''CLOSED'' \<and> new_state = ''OPEN''
               then es\<lparr>repetitions := repetitions es + 1\<rparr> else es)
            else if exercise_type = ''abduction_adduction'' then
              (if current = ''CLOSED'' \<and> new_state = ''SPREAD''
               then es\<lparr>repetitions := repetitions es + 1\<rparr> else es)
            else es)
         in (True, es1\<lparr>previous_state := current, current_state := new_state,
                        last_state_change := t\<rparr>))
      else (False, es))"

text \<open>
  \<^verbatim>\<open>StateManager.update_state\<close>: the result is the pair the source returns
  (\<^verbatim>\<open>state_changed\<close>, \<^verbatim>\<open>repetitions\<close>) together with the dictionary after the
  call, or \<^verbatim>\<open>ValueError\<close> for an exercise type that is no key of the dictionary.
\<close>

definition update_state ::
  "states \<Rightarrow> real \<Rightarrow> real \<Rightarrow> string \<Rightarrow> string \<Rightarrow> py_error + (bool \<times> int \<times> states)" where
  "update_state S t_check t exercise_type new_state =
     (case S exercise_type of
        None \<Rightarrow> Inl ValueError
      | Some es \<Rightarrow>
          if exercise_type = ''thumb_opposition'' then
            (case update_thumb_opposition es t new_state of
               Inl e \<Rightarrow> Inl e
             | Inr (changed, es') \<Rightarrow> Inr (changed, repetitions es', S(exercise_type \<mapsto> es')))
          else if exercise_type = ''finger_lifts'' then
            (case update_finger_lifts es t new_state of
               (changed, es') \<Rightarrow> Inr (changed, repetitions es', S(exercise_type \<mapsto> es')))
          else
            (case update_debounced exercise_type es t_check t new_state of
               (changed, es') \<Rightarrow> Inr (changed, repetitions es', S(exercise_type \<mapsto> es'))))"

text \<open>\<^verbatim>\<open>StateManager.reset\<close>: a known exercise gets a fresh four-key entry, an
  unknown one leaves the dictionary alone.\<close>

definition reset :: "states \<Rightarrow> real \<Rightarrow> string \<Rightarrow> states" where
  "reset S t exercise_type =
     (if exercise_type \<in> dom S then
        S(exercise_type \<mapsto>
          \<lparr>current_state = ''OPEN'', previous_state = ''OPEN'', repetitions = 0,
           last_state_change = t, sequence_index = None, is_touching = None\<rparr>)
      else S)"

text \<open>\<^verbatim>\<open>get_current_state\<close> and \<^verbatim>\<open>get_repetitions\<close>.\<close>

definition get_current_state :: "states \<Rightarrow> string \<Rightarrow> string" where
  "get_current_state S exercise_type =
     (case S exercise_type of Some es \<Rightarrow> current_state es | None \<Rightarrow> ''OPEN'')"

definition get_repetitions :: "states \<Rightarrow> string \<Rightarrow> int" where
  "get_repetitions S exercise_type =
     (case S exercise_type of Some es \<Rightarrow> repetitions es | None \<Rightarrow> 0)"

text \<open>
  The fixed enumeration of exercise types: the keys \<^verbatim>\<open>__init__\<close> creates.
\<close>

definition exercise_types :: "string list" where
  "exercise_types =
     [''open_close'', ''pinch'', ''abduction_adduction'', ''thumb_opposition'',
      ''finger_lifts'']"

text \<open>
  The dictionaries a session can hold: the one the constructor builds, and whatever
  \<^verbatim>\<open>update_state\<close> and \<^verbatim>\<open>reset\<close> make of a dictionary already reached.
\<close>

inductive reachable :: "states \<Rightarrow> bool" where
  reach_init: "reachable (init t_oc t_pi t_aa t_to t_fl)"
| reach_update:
    "reachable S \<Longrightarrow>
     update_state S t_check t exercise_type new_state = Inr (changed, n, S') \<Longrightarrow>
     reachable S'"
| reach_reset: "reachable S \<Longrightarrow> reachable (reset S t exercise_type)"

text \<open>
  One call of \<^verbatim>\<open>update_state\<close> as a caller sees it, the call being the two clock
  readings, the exercise type and the label.  Both raises of \<^verbatim>\<open>update_state\<close>
  (the unknown exercise type, the tuple subscript) come before its first assignment,
  so a call that raises leaves the dictionary as it was.
\<close>

definition apply_update :: "states \<Rightarrow> real \<times> real \<times> string \<times> string \<Rightarrow> states" where
  "apply_update S call =
     (case call of (t_check, t, exercise_type, new_state) \<Rightarrow>
        (case update_state S t_check t exercise_type new_state of
           Inl e \<Rightarrow> S
         | Inr (changed, n, S') \<Rightarrow> S'))"

text \<open>
  What holds of the \<^verbatim>\<open>thumb_opposition\<close> entry in every reachable dictionary: the
  cursor is a valid subscript of the finger tuple, and the touching flag is set
  exactly while the current label is a touch label.
\<close>

definition thumb_ok :: "exercise_state \<Rightarrow> bool" where
  "thumb_ok es \<longleftrightarrow>
     0 \<le> get_sequence_index es \<and> get_sequence_index es < 4 \<and>
     get_is_touching es = prefix ''TOUCH_'' (current_state es)"

definition states_ok :: "states \<Rightarrow> bool" where
  "states_ok S \<longleftrightarrow>
     dom S = set exercise_types \<and>
     (\<exists>es. S ''thumb_opposition'' = Some es \<and> thumb_ok es)"

section \<open>The gesture classifiers (\<^verbatim>\<open>exercises/*.py\<close>)\<close>

text \<open>
  A landmark is a dictionary from coordinate names to numbers, a frame a list of
  landmarks.  Coordinates are real numbers here (no rounding, no NaN); a landmark
  may lack any of its keys, and reading a missing key raises \<^verbatim>\<open>KeyError\<close>.
\<close>

type_synonym point = "string \<rightharpoonup> real"
type_synonym frame = "point list"

definition py_bind :: "py_error + 'a \<Rightarrow> ('a \<Rightarrow> py_error + 'b) \<Rightarrow> py_error + 'b" where
  "py_bind m f = (case m of Inl e \<Rightarrow> Inl e | Inr v \<Rightarrow> f v)"

definition getitem :: "point \<Rightarrow> string \<Rightarrow> py_error + real" where
  "getitem p k = (case p k of None \<Rightarrow> Inl KeyError | Some v \<Rightarrow> Inr v)"

definition py_div :: "real \<Rightarrow> real \<Rightarrow> py_error + real" where
  "py_div a b = (if b = 0 then Inl ZeroDivisionError else Inr (a / b))"

text \<open>
  \<^verbatim>\<open>_dist\<close>, the planar distance, and \<^verbatim>\<open>_palm_size\<close>: the detectors for
  abduction/adduction, finger lifts and thumb opposition each define both, with the
  same text.
\<close>

definition dist_2d :: "point \<Rightarrow> point \<Rightarrow> py_error + real" where
  "dist_2d a b =
     py_bind (getitem a ''x'') (\<lambda>ax. py_bind (getitem b ''x'') (\<lambda>bx.
     py_bind (getitem a ''y'') (\<lambda>ay. py_bind (getitem b ''y'') (\<lambda>by.
       Inr (sqrt ((ax - bx)\<^sup>2 + (ay - by)\<^sup>2))))))"

definition palm_size :: "frame \<Rightarrow> py_error + real" where
  "palm_size landmarks =
     (if length landmarks < 10 then Inr 1.0
      else py_bind (py_index landmarks 0) (\<lambda>wrist.
           py_bind (py_index landmarks 9) (\<lambda>mcp.
           py_bind (dist_2d wrist mcp) (\<lambda>size. Inr (max size (1 / 1000000))))))"

subsection \<open>\<^verbatim>\<open>AbductionAdductionDetector\<close>\<close>

text \<open>One entry of the list \<^verbatim>\<open>gaps\<close>:
  \<^verbatim>\<open>self._dist(landmarks[i], landmarks[j]) / palm\<close>.\<close>

definition adjacent_gap :: "frame \<Rightarrow> int \<Rightarrow> int \<Rightarrow> real \<Rightarrow> py_error + real" where
  "adjacent_gap landmarks i j palm =
     py_bind (py_index landmarks i) (\<lambda>a. py_bind (py_index landmarks j) (\<lambda>b.
     py_bind (dist_2d a b) (\<lambda>d. py_div d palm)))"

definition calculate_finger_spread :: "frame \<Rightarrow> py_error + real" where
  "calculate_finger_spread landmarks =
     (if length landmarks < 21 then Inr 0
      else py_bind (palm_size landmarks) (\<lambda>palm.
           py_bind (adjacent_gap landmarks 8 12 palm) (\<lambda>g1.
           py_bind (adjacent_gap landmarks 12 16 palm) (\<lambda>g2.
           py_bind (adjacent_gap landmarks 16 20 palm) (\<lambda>g3.
             Inr (sum_list [g1, g2, g3] / real (length [g1, g2, g3])))))))"

definition AbductionAdduction_detect_state :: "frame \<Rightarrow> py_error + string" where
  "AbductionAdduction_detect_state landmarks =
     (if landmarks = [] \<or> length landmarks < 21 then Inr ''UNKNOWN''
      else py_bind (calculate_finger_spread landmarks) (\<lambda>gap.
             if gap \<ge> 0.34 then Inr ''SPREAD''
             else if gap \<le> 0.20 then Inr ''CLOSED''
             else Inr ''TRANSITIONING''))"

subsection \<open>\<^verbatim>\<open>FingerLiftsDetector\<close>\<close>

definition fingers :: "(string \<times> int \<times> int) list" where
  "fingers = [(''INDEX'', 8, 6), (''MIDDLE'', 12, 10), (''RING'', 16, 14), (''PINKY'', 20, 18)]"

text \<open>The loop of \<^verbatim>\<open>detect_state\<close> over \<^verbatim>\<open>self.fingers.items()\<close>; the accumulator
  is the pair of \<^verbatim>\<open>best_finger\<close> and \<^verbatim>\<open>best_score\<close>.\<close>

fun best_lift ::
  "frame \<Rightarrow> real \<Rightarrow> (string \<times> int \<times> int) list \<Rightarrow> string option \<times> real
     \<Rightarrow> py_error + (string option \<times> real)" where
  "best_lift landmarks palm [] best = Inr best"
| "best_lift landmarks palm ((name, tip_idx, pip_idx) # rest) (best_finger, best_score) =
     (case py_index landmarks tip_idx of Inl e \<Rightarrow> Inl e | Inr tip \<Rightarrow>
     (case py_index landmarks pip_idx of Inl e \<Rightarrow> Inl e | Inr pip \<Rightarrow>
     (case getitem pip ''y'' of Inl e \<Rightarrow> Inl e | Inr pip_y \<Rightarrow>
     (case getitem tip ''y'' of Inl e \<Rightarrow> Inl e | Inr tip_y \<Rightarrow>
     (case py_div (pip_y - tip_y) palm of Inl e \<Rightarrow> Inl e | Inr score \<Rightarrow>
        if score > best_score then best_lift landmarks palm rest (Some name, score)
        else best_lift landmarks palm rest (best_finger, best_score))))))"

definition FingerLifts_detect_state :: "frame \<Rightarrow> py_error + string" where
  "FingerLifts_detect_state landmarks =
     (if landmarks = [] \<or> length landmarks < 21 then Inr ''UNKNOWN''
      else py_bind (palm_size landmarks) (\<lambda>palm.
           py_bind (best_lift landmarks palm fingers (None, 0)) (\<lambda>(best_finger, best_score).
             if best_finger \<noteq> None \<and> best_finger \<noteq> Some [] \<and> best_score \<ge> 0.055
             then Inr (the best_finger @ ''_UP'')
             else if best_score \<le> 0.035 then Inr ''NONE''
             else Inr ''TRANSITION'')))"

subsection \<open>\<^verbatim>\<open>HandOpenCloseDetector\<close> and \<^verbatim>\<open>PinchDetector\<close>\<close>

text \<open>\<^verbatim>\<open>calculate_distance\<close>, the spatial distance; the two classes define it with
  the same text.\<close>

definition calculate_distance :: "point \<Rightarrow> point \<Rightarrow> py_error + real" where
  "calculate_distance point1 point2 =
     py_bind (getitem point1 ''x'') (\<lambda>x1. py_bind (getitem point2 ''x'') (\<lambda>x2.
     py_bind (getitem point1 ''y'') (\<lambda>y1. py_bind (getitem point2 ''y'') (\<lambda>y2.
     py_bind (getitem point1 ''z'') (\<lambda>z1. py_bind (getitem point2 ''z'') (\<lambda>z2.
       (let dx = x1 - x2; dy = y1 - y2; dz = z1 - z2
        in Inr (sqrt (dx * dx + dy * dy + dz * dz)))))))))"

text \<open>The loop filling \<^verbatim>\<open>distances\<close>.\<close>

fun fingertip_distances :: "frame \<Rightarrow> point \<Rightarrow> int list \<Rightarrow> real list \<Rightarrow> py_error + real list" where
  "fingertip_distances landmarks wrist [] distances = Inr distances"
| "fingertip_distances landmarks wrist (fingertip_index # rest) distances =
     (case py_index landmarks fingertip_index of Inl e \<Rightarrow> Inl e | Inr fingertip \<Rightarrow>
     (case calculate_distance wrist fingertip of Inl e \<Rightarrow> Inl e | Inr distance \<Rightarrow>
        fingertip_distances landmarks wrist rest (distances @ [distance])))"

text \<open>\<^verbatim>\<open>except (KeyError, IndexError, TypeError)\<close>: the handler of both
  \<^verbatim>\<open>detect_state\<close> methods, returning \<^verbatim>\<open>'TRANSITION'\<close>.  Coordinates being
  numbers here, no \<^verbatim>\<open>TypeError\<close> arises; any other error passes through.\<close>

definition except_transition :: "py_error + string \<Rightarrow> py_error + string" where
  "except_transition r =
     (case r of
        Inr label \<Rightarrow> Inr label
      | Inl e \<Rightarrow> if e = KeyError \<or> e = IndexError then Inr ''TRANSITION'' else Inl e)"

definition HandOpenClose_detect_state :: "frame \<Rightarrow> py_error + string" where
  "HandOpenClose_detect_state landmarks =
     (if landmarks = [] \<or> length landmarks < 21 then Inr ''TRANSITION''
      else except_transition
        (py_bind (py_index landmarks 0) (\<lambda>wrist.
         py_bind (fingertip_distances landmarks wrist [8, 12, 16, 20] []) (\<lambda>distances.
         py_bind (py_div (sum_list distances) (real (length distances))) (\<lambda>avg_distance.
           if avg_distance > 0.25 then Inr ''OPEN''
           else if avg_distance < 0.15 then Inr ''CLOSED''
           else Inr ''TRANSITION'')))))"

definition Pinch_detect_state :: "frame \<Rightarrow> py_error + string" where
  "Pinch_detect_state landmarks =
     (if landmarks = [] \<or> length landmarks < 21 then Inr ''TRANSITION''
      else except_transition
        (py_bind (py_index landmarks 4) (\<lambda>thumb.
         py_bind (py_index landmarks 8) (\<lambda>index.
         py_bind (calculate_distance thumb index) (\<lambda>distance.
           if distance > 0.08 then Inr ''OPEN''
           else if distance < 0.04 then Inr ''CLOSED''
           else Inr ''TRANSITION'')))))"

subsection \<open>\<^verbatim>\<open>ThumbOppositionDetector\<close> and its caller in \<^verbatim>\<open>app.py\<close>\<close>

definition finger_tips :: "string \<rightharpoonup> int" where
  "finger_tips = [''INDEX'' \<mapsto> 8, ''MIDDLE'' \<mapsto> 12, ''RING'' \<mapsto> 16, ''PINKY'' \<mapsto> 20]"

definition ThumbOpposition_detect_state :: "frame \<Rightarrow> py_error + string" where
  "ThumbOpposition_detect_state landmarks =
     (if landmarks = [] \<or> length landmarks < 21 then Inr ''UNKNOWN'' else Inr ''TRACKING'')"

text \<open>The value \<^verbatim>\<open>d\<close> both probes compare with their threshold.\<close>

definition target_distance :: "frame \<Rightarrow> string \<Rightarrow> py_error + real" where
  "target_distance landmarks target_finger =
     py_bind (palm_size landmarks) (\<lambda>palm.
     py_bind (py_index landmarks 4) (\<lambda>thumb.
     py_bind (case finger_tips target_finger of None \<Rightarrow> Inl KeyError | Some i \<Rightarrow> Inr i) (\<lambda>i.
     py_bind (py_index landmarks i) (\<lambda>tip.
     py_bind (dist_2d thumb tip) (\<lambda>dist. py_div dist palm)))))"

definition detect_touch_target :: "frame \<Rightarrow> string \<Rightarrow> py_error + bool" where
  "detect_touch_target landmarks target_finger =
     py_bind (target_distance landmarks target_finger) (\<lambda>d. Inr (d \<le> 0.22))"

definition detect_released :: "frame \<Rightarrow> string \<Rightarrow> py_error + bool" where
  "detect_released landmarks target_finger =
     py_bind (target_distance landmarks target_finger) (\<lambda>d. Inr (d \<ge> 0.28))"

text \<open>
  The probing loop of \<^verbatim>\<open>analyze\<close> (lines 332--339): the first finger whose probe
  answers true ends the loop; a probe that raises sets \<^verbatim>\<open>touched\<close> to
  \<^verbatim>\<open>None\<close> and the loop goes on.
\<close>

fun probe :: "frame \<Rightarrow> string option \<Rightarrow> string list \<Rightarrow> string option" where
  "probe landmarks touched [] = touched"
| "probe landmarks touched (finger # rest) =
     (case detect_touch_target landmarks finger of
        Inr True \<Rightarrow> Some finger
      | Inr False \<Rightarrow> probe landmarks touched rest
      | Inl e \<Rightarrow> probe landmarks None rest)"

text \<open>
  The label \<^verbatim>\<open>analyze\<close> hands to \<^verbatim>\<open>update_state\<close> for \<^verbatim>\<open>thumb_opposition\<close>
  (lines 329--350), for a non-empty frame.
\<close>

definition thumb_opposition_label :: "states \<Rightarrow> frame \<Rightarrow> py_error + string" where
  "thumb_opposition_label S landmarks =
     (let seq = [''INDEX'', ''MIDDLE'', ''RING'', ''PINKY''] in
      case S ''thumb_opposition'' of
        None \<Rightarrow> Inl KeyError
      | Some es \<Rightarrow>
          py_bind (py_index seq (get_sequence_index es)) (\<lambda>expected.
            (let touched = probe landmarks None seq in
             if touched = Some expected then Inr (''TOUCH_'' @ the touched)
             else if touched = None then Inr ''RELEASE''
             else Inr ''TRANSITION'')))"

section \<open>Concrete frames\<close>

text \<open>
  A frame of 21 landmarks at the origin whose landmark 8 (the index fingertip) has no
  \<^verbatim>\<open>y\<close> key.
\<close>

definition origin :: point where
  "origin = [''x'' \<mapsto> 0, ''y'' \<mapsto> 0, ''z'' \<mapsto> 0]"

definition malformed_frame :: frame where
  "malformed_frame = (replicate 21 origin)[8 := [''x'' \<mapsto> 0, ''z'' \<mapsto> 0]]"

text \<open>
  A frame of 21 complete landmarks with palm size 1 (wrist at the origin, middle
  finger base one unit above it), the thumb tip at the origin and every other
  fingertip at distance 1/4 from it.
\<close>

definition band_frame :: frame where
  "band_frame =
     (replicate 21 origin)
       [9 := [''x'' \<mapsto> 0, ''y'' \<mapsto> 1, ''z'' \<mapsto> 0],
        8 := [''x'' \<mapsto> 1 / 4, ''y'' \<mapsto> 0, ''z'' \<mapsto> 0],
        12 := [''x'' \<mapsto> 1 / 4, ''y'' \<mapsto> 0, ''z'' \<mapsto> 0],
        16 := [''x'' \<mapsto> 1 / 4, ''y'' \<mapsto> 0, ''z'' \<mapsto> 0],
        20 := [''x'' \<mapsto> 1 / 4, ''y'' \<mapsto> 0, ''z'' \<mapsto> 0]]"

text \<open>
  A frame of 21 complete landmarks with palm size 1, the thumb tip at the origin and
  every other fingertip one unit away from it.
\<close>

definition open_frame :: frame where
  "open_frame =
     (replicate 21 origin)
       [9 := [''x'' \<mapsto> 0, ''y'' \<mapsto> 1, ''z'' \<mapsto> 0],
        8 := [''x'' \<mapsto> 1, ''y'' \<mapsto> 0, ''z'' \<mapsto> 0],
        12 := [''x'' \<mapsto> 1, ''y'' \<mapsto> 0, ''z'' \<mapsto> 0],
        16 := [''x'' \<mapsto> 1, ''y'' \<mapsto> 0, ''z'' \<mapsto> 0],
        20 := [''x'' \<mapsto> 1, ''y'' \<mapsto> 0, ''z'' \<mapsto> 0]]"

section \<open>Facts about the state manager\<close>

subsection \<open>Strings\<close>

lemma not_suffix_UP_NONE: "\<not> suffix ''_UP'' ''NONE''"
  by (simp add: suffix_to_prefix)

lemma str_replace_finger_names:
  "str_replace ''TOUCH_'' '''' ''TOUCH_INDEX'' = ''INDEX''"
  "str_replace ''TOUCH_'' '''' ''TOUCH_MIDDLE'' = ''MIDDLE''"
  "str_replace ''TOUCH_'' '''' ''TOUCH_RING'' = ''RING''"
  "str_replace ''TOUCH_'' '''' ''TOUCH_PINKY'' = ''PINKY''"
  by (simp_all add: str_replace_def)

subsection \<open>A call that reports no change changes nothing\<close>

lemma thumb_unchanged:
  "update_thumb_opposition es t l = Inr (False, es') \<Longrightarrow> es' = es"
  by (auto simp: update_thumb_opposition_def Let_def split: sum.splits if_splits)

lemma finger_unchanged:
  "update_finger_lifts es t l = (False, es') \<Longrightarrow> es' = es"
  using not_suffix_UP_NONE
  by (auto simp: update_finger_lifts_def Let_def split: if_splits)

lemma debounced_unchanged:
  "update_debounced ex es tc t l = (False, es') \<Longrightarrow> es' = es"
  by (auto simp: update_debounced_def Let_def split: if_splits)

subsection \<open>The repetition count never goes down\<close>

lemma thumb_mono:
  "update_thumb_opposition es t l = Inr (c, es') \<Longrightarrow> repetitions es \<le> repetitions es'"
  by (auto simp: update_thumb_opposition_def Let_def split: if_splits sum.splits)

lemma finger_mono:
  "update_finger_lifts es t l = (c, es') \<Longrightarrow> repetitions es \<le> repetitions es'"
  by (auto simp: update_finger_lifts_def Let_def split: if_splits)

lemma debounced_mono:
  "update_debounced ex es tc t l = (c, es') \<Longrightarrow> repetitions es \<le> repetitions es'"
  by (auto simp: update_debounced_def Let_def split: if_splits)

lemma update_state_mono:
  "update_state S tc t ex l = Inr (c, n, S') \<Longrightarrow>
     get_repetitions S ex' \<le> get_repetitions S' ex'"
  by (auto simp: update_state_def get_repetitions_def
        split: option.splits if_splits sum.splits prod.splits
        dest: thumb_mono finger_mono debounced_mono)

lemma apply_update_mono:
  "get_repetitions S ex' \<le> get_repetitions (apply_update S call) ex'"
  by (auto simp: apply_update_def split: prod.splits sum.splits dest: update_state_mono)

lemma foldl_apply_update_mono:
  "get_repetitions S ex' \<le> get_repetitions (foldl apply_update S calls) ex'"
proof (induction calls arbitrary: S)
  case Nil
  then show ?case by simp
next
  case (Cons call calls)
  have "get_repetitions S ex' \<le> get_repetitions (apply_update S call) ex'"
    by (rule apply_update_mono)
  also have "\<dots> \<le> get_repetitions (foldl apply_update (apply_update S call) calls) ex'"
    by (rule Cons.IH)
  finally show ?case by simp
qed

subsection \<open>Reachable dictionaries\<close>

lemma states_ok_init: "states_ok (init t_oc t_pi t_aa t_to t_fl)"
  by (auto simp: states_ok_def init_def exercise_types_def thumb_ok_def
        get_sequence_index_def get_is_touching_def split: if_splits)

lemma thumb_ok_update:
  "thumb_ok es \<Longrightarrow> update_thumb_opposition es t l = Inr (c, es') \<Longrightarrow> thumb_ok es'"
  by (auto simp: update_thumb_opposition_def thumb_ok_def Let_def get_sequence_index_def
        get_is_touching_def py_index_def split: if_splits sum.splits option.splits)

lemma dom_update_state:
  "update_state S t_check t ex l = Inr (c, n, S') \<Longrightarrow> dom S' = dom S"
  by (auto simp: update_state_def split: option.splits if_splits sum.splits prod.splits)

lemma other_update_state:
  "update_state S t_check t ex l = Inr (c, n, S') \<Longrightarrow> ex' \<noteq> ex \<Longrightarrow> S' ex' = S ex'"
  by (auto simp: update_state_def split: option.splits if_splits sum.splits prod.splits)

lemma states_ok_update:
  assumes "states_ok S" "update_state S t_check t ex l = Inr (c, n, S')"
  shows "states_ok S'"
proof -
  from assms(1) obtain es where es: "S ''thumb_opposition'' = Some es" "thumb_ok es"
    by (auto simp: states_ok_def)
  have d: "dom S' = set exercise_types"
    using assms dom_update_state by (simp add: states_ok_def)
  have "\<exists>es'. S' ''thumb_opposition'' = Some es' \<and> thumb_ok es'"
  proof (cases "ex = ''thumb_opposition''")
    case True
    with assms(2) es show ?thesis
      by (auto simp: update_state_def split: sum.splits prod.splits dest: thumb_ok_update)
  next
    case False
    with other_update_state[OF assms(2), of "''thumb_opposition''"] es show ?thesis
      by auto
  qed
  with d show ?thesis
    by (simp add: states_ok_def)
qed

lemma states_ok_reset: "states_ok S \<Longrightarrow> states_ok (reset S t ex)"
  by (auto simp: states_ok_def reset_def thumb_ok_def get_sequence_index_def
        get_is_touching_def)

lemma reachable_ok: "reachable S \<Longrightarrow> states_ok S"
  by (induction rule: reachable.induct)
     (auto intro: states_ok_init states_ok_update states_ok_reset)

lemma states_ok_lookup:
  "states_ok S \<Longrightarrow> ex \<in> set exercise_types \<Longrightarrow> \<exists>es. S ex = Some es"
  by (auto simp: states_ok_def)

text \<open>On a reachable dictionary a call for an exercise of the enumeration returns.\<close>

lemma update_state_total:
  assumes "states_ok S" "ex \<in> set exercise_types"
  shows "\<exists>c n S'. update_state S tc t ex l = Inr (c, n, S')"
proof -
  from assms obtain es where es: "S ex = Some es"
    by (auto simp: states_ok_def)
  show ?thesis
  proof (cases "ex = ''thumb_opposition''")
    case True
    with assms es have "thumb_ok es"
      by (auto simp: states_ok_def)
    then have "\<exists>c es'. update_thumb_opposition es t l = Inr (c, es')"
      by (auto simp: update_thumb_opposition_def thumb_ok_def Let_def py_index_def)
    with True es show ?thesis
      by (auto simp: update_state_def)
  next
    case False
    with es show ?thesis
      by (auto simp: update_state_def split: prod.splits)
  qed
qed

subsection \<open>Repeating the current label\<close>

lemma same_label_thumb:
  "thumb_ok es \<Longrightarrow> update_thumb_opposition es t (current_state es) = Inr (False, es)"
  by (auto simp: update_thumb_opposition_def thumb_ok_def Let_def py_index_def
           split: sum.splits)

lemma same_label_finger:
  "update_finger_lifts es t (current_state es) = (False, es)"
  using not_suffix_UP_NONE
  by (auto simp: update_finger_lifts_def Let_def)

lemma same_label_debounced:
  "update_debounced ex es tc t (current_state es) = (False, es)"
  by (auto simp: update_debounced_def Let_def)

lemma same_label_update:
  assumes "states_ok S" "S ex = Some es"
  shows "update_state S tc t ex (current_state es) = Inr (False, repetitions es, S)"
proof -
  have "ex = ''thumb_opposition'' \<Longrightarrow> thumb_ok es"
    using assms by (auto simp: states_ok_def)
  then show ?thesis
    using assms(2)
    by (auto simp: update_state_def same_label_thumb same_label_finger same_label_debounced
          map_upd_triv)
qed

section \<open>Claims about the state manager\<close>

text \<open>
  C1.  For \<^verbatim>\<open>open_close\<close>, \<^verbatim>\<open>pinch\<close> and \<^verbatim>\<open>abduction_adduction\<close>, a call of
  \<^verbatim>\<open>update_state\<close> with the label \<^verbatim>\<open>TRANSITION\<close> or \<^verbatim>\<open>TRANSITIONING\<close> reports no
  change and leaves the dictionary and the count alone.  Any other label is
  accepted exactly when it differs from the current label and at least
  \<^verbatim>\<open>MIN_STATE_DURATION\<close>, which is 200 ms, separates the clock reading of the call
  from the last stored change; otherwise the call reports no change and alters
  nothing.  An accepted call stores the old current label as previous label, the
  new label as current label and the clock reading, and adds one to the count
  exactly when the current label was \<^verbatim>\<open>CLOSED\<close> and the new one is \<^verbatim>\<open>OPEN\<close>
  (\<^verbatim>\<open>open_close\<close>, \<^verbatim>\<open>pinch\<close>) or \<^verbatim>\<open>SPREAD\<close> (\<^verbatim>\<open>abduction_adduction\<close>).
\<close>

theorem debounce_rule:
  assumes "S exercise_type = Some es"
      and "exercise_type = ''open_close'' \<or> exercise_type = ''pinch''
           \<or> exercise_type = ''abduction_adduction''"
  shows "MIN_STATE_DURATION = 200 / 1000 \<and>
     update_state S t_check t exercise_type new_state =
     (if new_state = ''TRANSITION'' \<or> new_state = ''TRANSITIONING'' then
        Inr (False, repetitions es, S)
      else if new_state \<noteq> current_state es
              \<and> MIN_STATE_DURATION \<le> t_check - last_state_change es then
        (let n = repetitions es +
                 (if current_state es = ''CLOSED'' \<and>
                     new_state = (if exercise_type = ''abduction_adduction''
                                  then ''SPREAD'' else ''OPEN'')
                  then 1 else 0)
         in Inr (True, n,
              S(exercise_type \<mapsto> es\<lparr>repetitions := n, previous_state := current_state es,
                  current_state := new_state, last_state_change := t\<rparr>)))
      else Inr (False, repetitions es, S))"
proof
  show "MIN_STATE_DURATION = 200 / 1000"
    by (simp add: MIN_STATE_DURATION_def)
next
  from assms show "update_state S t_check t exercise_type new_state =
     (if new_state = ''TRANSITION'' \<or> new_state = ''TRANSITIONING'' then
        Inr (False, repetitions es, S)
      else if new_state \<noteq> current_state es
              \<and> MIN_STATE_DURATION \<le> t_check - last_state_change es then
        (let n = repetitions es +
                 (if current_state es = ''CLOSED'' \<and>
                     new_state = (if exercise_type = ''abduction_adduction''
                                  then ''SPREAD'' else ''OPEN'')
                  then 1 else 0)
         in Inr (True, n,
              S(exercise_type \<mapsto> es\<lparr>repetitions := n, previous_state := current_state es,
                  current_state := new_state, last_state_change := t\<rparr>)))
      else Inr (False, repetitions es, S))"
    by (auto simp: update_state_def update_debounced_def Let_def map_upd_triv)
qed

text \<open>
  The rule at work on the freshly built dictionary: \<^verbatim>\<open>abduction_adduction\<close> starts
  at \<^verbatim>\<open>CLOSED\<close>, so \<^verbatim>\<open>SPREAD\<close> one second later is accepted and counted.
\<close>

theorem debounce_rule_witness:
  "update_state (init 0 0 0 0 0) 1 1 ''abduction_adduction'' ''SPREAD'' =
     Inr (True, 1,
       (init 0 0 0 0 0)(''abduction_adduction'' \<mapsto>
          \<lparr>current_state = ''SPREAD'', previous_state = ''CLOSED'', repetitions = 1,
           last_state_change = 1, sequence_index = None, is_touching = None\<rparr>))"
  using debounce_rule[of "init 0 0 0 0 0" "''abduction_adduction''"
      "\<lparr>current_state = ''CLOSED'', previous_state = ''CLOSED'', repetitions = 0,
        last_state_change = 0, sequence_index = None, is_touching = None\<rparr>"
      1 1 "''SPREAD''"]
  by (simp add: init_def)

lemma finger_lifts_eq:
  assumes "S ''finger_lifts'' = Some es"
  shows "update_state S t_check t ''finger_lifts'' new_state =
     (if new_state = ''TRANSITION'' \<or> new_state = ''TRANSITIONING'' then
        Inr (False, repetitions es, S)
      else if new_state \<noteq> current_state es then
        (let n = repetitions es +
                 (if suffix ''_UP'' (current_state es) \<and> new_state = ''NONE'' then 1 else 0)
         in Inr (True, n,
              S(''finger_lifts'' \<mapsto> es\<lparr>repetitions := n, previous_state := current_state es,
                  current_state := new_state, last_state_change := t\<rparr>)))
      else Inr (False, repetitions es, S))"
  using assms not_suffix_UP_NONE
  by (auto simp: update_state_def update_finger_lifts_def Let_def map_upd_triv)

lemma suffix_UP_lifts: "suffix ''_UP'' ''INDEX_UP''" "suffix ''_UP'' ''MIDDLE_UP''"
  by (simp_all add: suffix_to_prefix)

lemma finger_lifts_up_none:
  assumes "S ''finger_lifts'' = Some es"
  shows "get_repetitions
           (foldl apply_update S
              [(c1, t1, ''finger_lifts'', ''INDEX_UP''), (c2, t2, ''finger_lifts'', ''NONE'')])
           ''finger_lifts'' = repetitions es + 1"
  using assms suffix_UP_lifts
  by (auto simp: apply_update_def update_state_def update_finger_lifts_def Let_def
        get_repetitions_def)

lemma finger_lifts_up_up_none:
  assumes "S ''finger_lifts'' = Some es"
  shows "get_repetitions
           (foldl apply_update S
              [(c1, t1, ''finger_lifts'', ''INDEX_UP''), (c2, t2, ''finger_lifts'', ''MIDDLE_UP''),
               (c3, t3, ''finger_lifts'', ''NONE'')])
           ''finger_lifts'' = repetitions es + 1"
  using assms suffix_UP_lifts
  by (auto simp: apply_update_def update_state_def update_finger_lifts_def Let_def
        get_repetitions_def)

text \<open>
  C3.  For \<^verbatim>\<open>finger_lifts\<close> the clock plays no part in the decision.  The labels
  \<^verbatim>\<open>TRANSITION\<close> and \<^verbatim>\<open>TRANSITIONING\<close> are ignored; any other label that differs
  from the current one is committed, and the count grows by one exactly when the
  current label ends in \<^verbatim>\<open>_UP\<close> and the new label is \<^verbatim>\<open>NONE\<close>.  From any entry,
  \<^verbatim>\<open>INDEX_UP\<close> followed by \<^verbatim>\<open>NONE\<close> adds exactly one repetition, and so does
  \<^verbatim>\<open>INDEX_UP\<close>, \<^verbatim>\<open>MIDDLE_UP\<close>, \<^verbatim>\<open>NONE\<close>.
\<close>

theorem finger_lifts_rule:
  assumes "S ''finger_lifts'' = Some es"
  shows "update_state S t_check t ''finger_lifts'' new_state =
     (if new_state = ''TRANSITION'' \<or> new_state = ''TRANSITIONING'' then
        Inr (False, repetitions es, S)
      else if new_state \<noteq> current_state es then
        (let n = repetitions es +
                 (if suffix ''_UP'' (current_state es) \<and> new_state = ''NONE'' then 1 else 0)
         in Inr (True, n,
              S(''finger_lifts'' \<mapsto> es\<lparr>repetitions := n, previous_state := current_state es,
                  current_state := new_state, last_state_change := t\<rparr>)))
      else Inr (False, repetitions es, S))
    \<and> get_repetitions
           (foldl apply_update S
              [(c1, t1, ''finger_lifts'', ''INDEX_UP''), (c2, t2, ''finger_lifts'', ''NONE'')])
           ''finger_lifts'' = repetitions es + 1
    \<and> get_repetitions
           (foldl apply_update S
              [(c1, t1, ''finger_lifts'', ''INDEX_UP''), (c2, t2, ''finger_lifts'', ''MIDDLE_UP''),
               (c3, t3, ''finger_lifts'', ''NONE'')])
           ''finger_lifts'' = repetitions es + 1"
  using assms finger_lifts_eq[of S es t_check t new_state]
    finger_lifts_up_none[of S es c1 t1 c2 t2]
    finger_lifts_up_up_none[of S es c1 t1 c2 t2 c3 t3]
  by blast

text \<open>
  On the freshly built dictionary: \<^verbatim>\<open>INDEX_UP\<close> is committed without a count,
  and the two sequences end with one repetition.
\<close>

theorem finger_lifts_rule_witness:
  "update_state (init 0 0 0 0 0) 7 8 ''finger_lifts'' ''INDEX_UP'' =
     Inr (True, 0,
       (init 0 0 0 0 0)(''finger_lifts'' \<mapsto>
          \<lparr>current_state = ''INDEX_UP'', previous_state = ''NONE'', repetitions = 0,
           last_state_change = 8, sequence_index = None, is_touching = None\<rparr>))
   \<and> get_repetitions
        (foldl apply_update (init 0 0 0 0 0)
           [(1, 1, ''finger_lifts'', ''INDEX_UP''), (2, 2, ''finger_lifts'', ''NONE'')])
        ''finger_lifts'' = 1
   \<and> get_repetitions
        (foldl apply_update (init 0 0 0 0 0)
           [(1, 1, ''finger_lifts'', ''INDEX_UP''), (2, 2, ''finger_lifts'', ''MIDDLE_UP''),
            (3, 3, ''finger_lifts'', ''NONE'')])
        ''finger_lifts'' = 1"
  using finger_lifts_rule[of "init 0 0 0 0 0"
      "\<lparr>current_state = ''NONE'', previous_state = ''NONE'', repetitions = 0,
        last_state_change = 0, sequence_index = None, is_touching = None\<rparr>"
      7 8 "''INDEX_UP''" 1 1 2 2 3 3]
  by (simp add: init_def suffix_to_prefix)

lemma update_state_returns_count:
  "update_state S tc t ex l = Inr (c, n, S') \<Longrightarrow> n = get_repetitions S' ex"
  by (auto simp: update_state_def get_repetitions_def
        split: option.splits if_splits sum.splits prod.splits)

lemma reset_zero: "get_repetitions (reset S t ex) ex = 0"
  by (auto simp: get_repetitions_def reset_def split: option.splits)

text \<open>
  C4.  No call of \<^verbatim>\<open>update_state\<close> that returns, with whatever exercise type,
  label and clock readings, lowers the repetition count of any exercise, and the
  count it returns is the count it leaves behind; a call that raises changes
  nothing; so no sequence of calls lowers a count either.  \<^verbatim>\<open>reset\<close> is what sets
  a count to zero.
\<close>

theorem repetitions_monotone:
  "(\<forall>changed n S'.
      update_state S t_check t exercise_type new_state = Inr (changed, n, S') \<longrightarrow>
        get_repetitions S other_type \<le> get_repetitions S' other_type \<and>
        n = get_repetitions S' exercise_type)
   \<and> get_repetitions S other_type
       \<le> get_repetitions (foldl apply_update S calls) other_type
   \<and> get_repetitions (reset S t' other_type) other_type = 0"
  using update_state_mono[of S t_check t exercise_type new_state _ _ _ other_type]
    update_state_returns_count[of S t_check t exercise_type new_state]
    foldl_apply_update_mono[of S other_type calls] reset_zero[of S t' other_type]
  by blast

text \<open>
  On the fresh dictionary: the accepted \<^verbatim>\<open>SPREAD\<close> of \<^verbatim>\<open>abduction_adduction\<close> takes
  the count from 0 to 1, and a run that closes and spreads again ends at 2.
\<close>

theorem repetitions_monotone_witness:
  "update_state (init 0 0 0 0 0) 1 1 ''abduction_adduction'' ''SPREAD'' =
     Inr (True, 1,
       (init 0 0 0 0 0)(''abduction_adduction'' \<mapsto>
          \<lparr>current_state = ''SPREAD'', previous_state = ''CLOSED'', repetitions = 1,
           last_state_change = 1, sequence_index = None, is_touching = None\<rparr>))
   \<and> get_repetitions (init 0 0 0 0 0) ''abduction_adduction''
       \<le> get_repetitions
           ((init 0 0 0 0 0)(''abduction_adduction'' \<mapsto>
              \<lparr>current_state = ''SPREAD'', previous_state = ''CLOSED'', repetitions = 1,
               last_state_change = 1, sequence_index = None, is_touching = None\<rparr>))
           ''abduction_adduction''
   \<and> get_repetitions (init 0 0 0 0 0) ''abduction_adduction''
       \<le> get_repetitions
           (foldl apply_update (init 0 0 0 0 0)
              [(1, 1, ''abduction_adduction'', ''SPREAD''),
               (2, 2, ''abduction_adduction'', ''CLOSED''),
               (3, 3, ''abduction_adduction'', ''SPREAD'')])
           ''abduction_adduction''"
proof -
  have h: "update_state (init 0 0 0 0 0) 1 1 ''abduction_adduction'' ''SPREAD'' =
     Inr (True, 1,
       (init 0 0 0 0 0)(''abduction_adduction'' \<mapsto>
          \<lparr>current_state = ''SPREAD'', previous_state = ''CLOSED'', repetitions = 1,
           last_state_change = 1, sequence_index = None, is_touching = None\<rparr>))"
    by (simp add: init_def update_state_def update_debounced_def MIN_STATE_DURATION_def)
  from repetitions_monotone[of "init 0 0 0 0 0" 1 1 "''abduction_adduction''" "''SPREAD''"
      "''abduction_adduction''"
      "[(1, 1, ''abduction_adduction'', ''SPREAD''), (2, 2, ''abduction_adduction'', ''CLOSED''),
        (3, 3, ''abduction_adduction'', ''SPREAD'')]"] h
  show ?thesis
    by (auto simp: get_repetitions_def init_def)
qed

text \<open>
  C9.  In a reachable dictionary, a call of \<^verbatim>\<open>update_state\<close> whose label is the
  current label of the exercise reports no change, returns the count as it was and
  leaves the dictionary as it was; the next call with the same label therefore meets
  the same dictionary and does the same.
\<close>

theorem same_label_idempotent:
  assumes "reachable S" and "exercise_type \<in> set exercise_types"
  shows "\<exists>es. S exercise_type = Some es \<and>
           update_state S c1 t1 exercise_type (current_state es) =
             Inr (False, repetitions es, S) \<and>
           update_state S c2 t2 exercise_type (current_state es) =
             Inr (False, repetitions es, S)"
proof -
  from assms have ok: "states_ok S"
    by (simp add: reachable_ok)
  with assms(2) obtain es where es: "S exercise_type = Some es"
    using states_ok_lookup by blast
  with ok show ?thesis
    by (simp add: same_label_update)
qed

theorem same_label_idempotent_witness:
  "reachable (init 0 0 0 0 0) \<and> ''thumb_opposition'' \<in> set exercise_types \<and>
   update_state (init 0 0 0 0 0) 1 1 ''thumb_opposition'' ''TRACKING'' =
     Inr (False, 0, init 0 0 0 0 0) \<and>
   update_state (init 0 0 0 0 0) 2 2 ''thumb_opposition'' ''TRACKING'' =
     Inr (False, 0, init 0 0 0 0 0)"
proof -
  have r: "reachable (init 0 0 0 0 0)"
    by (rule reach_init)
  have m: "''thumb_opposition'' \<in> set exercise_types"
    by (simp add: exercise_types_def)
  from same_label_idempotent[OF r m, of 1 1 2 2] r m show ?thesis
    by (simp add: init_def)
qed

text \<open>
  C10.  Whenever \<^verbatim>\<open>update_state\<close> returns with the changed flag false, the whole
  dictionary is as it was before the call, so every field of every entry is
  unchanged, and the count returned is the count the exercise had.
\<close>

theorem update_state_unchanged_frame:
  assumes "update_state S t_check t exercise_type new_state = Inr (False, n, S')"
  shows "S' = S \<and> n = get_repetitions S exercise_type"
proof -
  from assms obtain es where es: "S exercise_type = Some es"
    by (auto simp: update_state_def split: option.splits)
  from assms es have "S' = S(exercise_type \<mapsto> es) \<and> n = repetitions es"
    by (auto simp: update_state_def split: if_splits sum.splits prod.splits
             dest: thumb_unchanged finger_unchanged debounced_unchanged)
  with es show ?thesis
    by (simp add: get_repetitions_def map_upd_triv)
qed

text \<open>A touch of the wrong finger on the fresh dictionary is such a call.\<close>

theorem update_state_unchanged_frame_witness:
  "update_state (init 0 0 0 0 0) 1 1 ''thumb_opposition'' ''TOUCH_MIDDLE'' =
     Inr (False, 0, init 0 0 0 0 0)"
proof -
  obtain n S' where h:
    "update_state (init 0 0 0 0 0) 1 1 ''thumb_opposition'' ''TOUCH_MIDDLE'' = Inr (False, n, S')"
    by (simp add: init_def update_state_def update_thumb_opposition_def str_replace_def
          py_index_def get_sequence_index_def get_is_touching_def)
  from update_state_unchanged_frame[OF h] h show ?thesis
    by (simp add: get_repetitions_def init_def)
qed

subsection \<open>The thumb opposition sequence\<close>

lemma thumb_opposition_eq:
  assumes "S ''thumb_opposition'' = Some es"
      and "0 \<le> get_sequence_index es" and "get_sequence_index es < 4"
  shows "update_state S t_check t ''thumb_opposition'' new_state =
     (if prefix ''TOUCH_'' new_state then
        (if str_replace ''TOUCH_'' '''' new_state =
              [''INDEX'', ''MIDDLE'', ''RING'', ''PINKY''] ! nat (get_sequence_index es)
            \<and> \<not> get_is_touching es then
           (let i = (get_sequence_index es + 1) mod 4;
                n = repetitions es + (if i = 0 then 1 else 0)
            in Inr (True, n,
                 S(''thumb_opposition'' \<mapsto>
                   es\<lparr>is_touching := Some True, sequence_index := Some i, repetitions := n,
                      previous_state := current_state es, current_state := new_state,
                      last_state_change := t\<rparr>)))
         else Inr (False, repetitions es, S))
      else if new_state = ''RELEASE'' \<or> new_state = ''TRANSITION'' then
        (if get_is_touching es then
           Inr (True, repetitions es,
             S(''thumb_opposition'' \<mapsto>
               es\<lparr>is_touching := Some False, previous_state := current_state es,
                  current_state := new_state, last_state_change := t\<rparr>))
         else Inr (False, repetitions es, S))
      else Inr (False, repetitions es, S))"
  using assms
  by (auto simp: update_state_def update_thumb_opposition_def Let_def map_upd_triv
        py_index_def get_sequence_index_def)

text \<open>One full round, whatever the clock readings of the eight calls.\<close>

lemma thumb_opposition_round:
  assumes "S ''thumb_opposition'' = Some es"
      and "get_sequence_index es = 0" and "\<not> get_is_touching es"
  shows "get_repetitions
           (foldl apply_update S
              [(c1, t1, ''thumb_opposition'', ''TOUCH_INDEX''),
               (c2, t2, ''thumb_opposition'', ''RELEASE''),
               (c3, t3, ''thumb_opposition'', ''TOUCH_MIDDLE''),
               (c4, t4, ''thumb_opposition'', ''RELEASE''),
               (c5, t5, ''thumb_opposition'', ''TOUCH_RING''),
               (c6, t6, ''thumb_opposition'', ''RELEASE''),
               (c7, t7, ''thumb_opposition'', ''TOUCH_PINKY''),
               (c8, t8, ''thumb_opposition'', ''RELEASE'')])
           ''thumb_opposition'' = repetitions es + 1"
  using assms
  by (cases "sequence_index es"; cases "is_touching es")
     (simp_all add: apply_update_def update_state_def update_thumb_opposition_def Let_def
        str_replace_def py_index_def get_sequence_index_def get_is_touching_def
        get_repetitions_def)

subsection \<open>Reset\<close>

lemma reset_entry:
  "exercise_type \<in> dom S \<Longrightarrow>
     reset S t exercise_type exercise_type =
       Some \<lparr>current_state = ''OPEN'', previous_state = ''OPEN'', repetitions = 0,
             last_state_change = t, sequence_index = None, is_touching = None\<rparr>"
  by (simp add: reset_def)

text \<open>
  The labels of the thumb opposition exercise are \<^verbatim>\<open>TOUCH_\<close> followed by a finger
  name, \<^verbatim>\<open>RELEASE\<close> and \<^verbatim>\<open>TRANSITION\<close> (the comment at line 74 of the source);
  \<^verbatim>\<open>analyze\<close>, the only caller, builds its touch labels from the four finger names.
  For a touch label whose text after the prefix holds no further \<^verbatim>\<open>TOUCH_\<close>, what
  \<^verbatim>\<open>replace\<close> leaves is that text.
\<close>

lemma str_replace_ne_no_sublist:
  "\<not> sublist old s \<Longrightarrow> str_replace_ne old new s = s"
  by (induction s) (simp_all add: sublist_Cons_right)

lemma str_replace_touch_clean:
  "\<not> sublist ''TOUCH_'' finger \<Longrightarrow>
     str_replace ''TOUCH_'' '''' (''TOUCH_'' @ finger) = finger"
  by (simp add: str_replace_def str_replace_ne_no_sublist)

lemma thumb_opposition_touch:
  assumes "S ''thumb_opposition'' = Some es"
      and "0 \<le> get_sequence_index es" and "get_sequence_index es < 4"
      and "\<not> sublist ''TOUCH_'' finger"
  shows "update_state S t_check t ''thumb_opposition'' (''TOUCH_'' @ finger) =
     (if finger = [''INDEX'', ''MIDDLE'', ''RING'', ''PINKY''] ! nat (get_sequence_index es)
         \<and> \<not> get_is_touching es then
        (let i = (get_sequence_index es + 1) mod 4;
             n = repetitions es + (if i = 0 then 1 else 0)
         in Inr (True, n,
              S(''thumb_opposition'' \<mapsto>
                es\<lparr>is_touching := Some True, sequence_index := Some i, repetitions := n,
                   previous_state := current_state es,
                   current_state := ''TOUCH_'' @ finger, last_state_change := t\<rparr>)))
      else Inr (False, repetitions es, S))"
  using assms thumb_opposition_eq[of S es t_check t "''TOUCH_'' @ finger"]
    str_replace_touch_clean[of finger]
  by simp

lemma thumb_opposition_release:
  assumes "S ''thumb_opposition'' = Some es"
      and "new_state = ''RELEASE'' \<or> new_state = ''TRANSITION''"
  shows "update_state S t_check t ''thumb_opposition'' new_state =
     (if get_is_touching es then
        Inr (True, repetitions es,
          S(''thumb_opposition'' \<mapsto>
            es\<lparr>is_touching := Some False, previous_state := current_state es,
               current_state := new_state, last_state_change := t\<rparr>))
      else Inr (False, repetitions es, S))"
  using assms
  by (auto simp: update_state_def update_thumb_opposition_def Let_def map_upd_triv)

lemma thumb_opposition_other:
  assumes "S ''thumb_opposition'' = Some es"
      and "\<not> prefix ''TOUCH_'' new_state"
      and "new_state \<noteq> ''RELEASE''" and "new_state \<noteq> ''TRANSITION''"
  shows "update_state S t_check t ''thumb_opposition'' new_state =
           Inr (False, repetitions es, S)"
  using assms
  by (simp add: update_state_def update_thumb_opposition_def Let_def map_upd_triv)

section \<open>Claims about the thumb opposition sequence and reset\<close>

text \<open>
  C2.  For \<^verbatim>\<open>thumb_opposition\<close> with the cursor at one of the four fingers, a touch
  label, that is \<^verbatim>\<open>TOUCH_\<close> followed by a finger text holding no further
  \<^verbatim>\<open>TOUCH_\<close>, is accepted exactly when that finger is the one at the cursor (of
  \<^verbatim>\<open>INDEX\<close>, \<^verbatim>\<open>MIDDLE\<close>, \<^verbatim>\<open>RING\<close>, \<^verbatim>\<open>PINKY\<close>) and the touching flag is false.
  An accepted touch sets the flag, advances the cursor by one modulo 4, adds one to
  the count exactly when the cursor wraps to 0, commits the label and the clock
  reading and reports a change.  \<^verbatim>\<open>RELEASE\<close> and \<^verbatim>\<open>TRANSITION\<close> are accepted
  exactly when the flag is set, and clear it.  Every label that neither starts with
  \<^verbatim>\<open>TOUCH_\<close> nor is \<^verbatim>\<open>RELEASE\<close> or \<^verbatim>\<open>TRANSITION\<close> is rejected, as is every
  rejected call, with no change to the dictionary.  The eight labels
  \<^verbatim>\<open>TOUCH_INDEX\<close>, \<^verbatim>\<open>RELEASE\<close>, \<^verbatim>\<open>TOUCH_MIDDLE\<close>, \<^verbatim>\<open>RELEASE\<close>, \<^verbatim>\<open>TOUCH_RING\<close>,
  \<^verbatim>\<open>RELEASE\<close>, \<^verbatim>\<open>TOUCH_PINKY\<close>, \<^verbatim>\<open>RELEASE\<close>, started with the cursor at 0 and the
  flag false as in the initial state, add exactly one repetition.
\<close>

theorem thumb_opposition_rule:
  assumes "S ''thumb_opposition'' = Some es"
      and "0 \<le> get_sequence_index es" and "get_sequence_index es < 4"
  shows "(\<not> sublist ''TOUCH_'' finger \<longrightarrow>
        update_state S t_check t ''thumb_opposition'' (''TOUCH_'' @ finger) =
          (if finger = [''INDEX'', ''MIDDLE'', ''RING'', ''PINKY''] ! nat (get_sequence_index es)
              \<and> \<not> get_is_touching es then
             (let i = (get_sequence_index es + 1) mod 4;
                  n = repetitions es + (if i = 0 then 1 else 0)
              in Inr (True, n,
                   S(''thumb_opposition'' \<mapsto>
                     es\<lparr>is_touching := Some True, sequence_index := Some i, repetitions := n,
                        previous_state := current_state es,
                        current_state := ''TOUCH_'' @ finger, last_state_change := t\<rparr>)))
           else Inr (False, repetitions es, S)))
    \<and> (new_state = ''RELEASE'' \<or> new_state = ''TRANSITION'' \<longrightarrow>
        update_state S t_check t ''thumb_opposition'' new_state =
          (if get_is_touching es then
             Inr (True, repetitions es,
               S(''thumb_opposition'' \<mapsto>
                 es\<lparr>is_touching := Some False, previous_state := current_state es,
                    current_state := new_state, last_state_change := t\<rparr>))
           else Inr (False, repetitions es, S)))
    \<and> (\<not> prefix ''TOUCH_'' new_state \<and> new_state \<noteq> ''RELEASE''
          \<and> new_state \<noteq> ''TRANSITION'' \<longrightarrow>
        update_state S t_check t ''thumb_opposition'' new_state =
          Inr (False, repetitions es, S))
    \<and> (get_sequence_index es = 0 \<and> \<not> get_is_touching es \<longrightarrow>
        get_repetitions
           (foldl apply_update S
              [(c1, t1, ''thumb_opposition'', ''TOUCH_INDEX''),
               (c2, t2, ''thumb_opposition'', ''RELEASE''),
               (c3, t3, ''thumb_opposition'', ''TOUCH_MIDDLE''),
               (c4, t4, ''thumb_opposition'', ''RELEASE''),
               (c5, t5, ''thumb_opposition'', ''TOUCH_RING''),
               (c6, t6, ''thumb_opposition'', ''RELEASE''),
               (c7, t7, ''thumb_opposition'', ''TOUCH_PINKY''),
               (c8, t8, ''thumb_opposition'', ''RELEASE'')])
           ''thumb_opposition'' = repetitions es + 1)"
  using assms thumb_opposition_touch[of S es finger t_check t]
    thumb_opposition_release[of S es new_state t_check t]
    thumb_opposition_other[of S es new_state t_check t]
    thumb_opposition_round[of S es c1 t1 c2 t2 c3 t3 c4 t4 c5 t5 c6 t6 c7 t7 c8 t8]
  by blast

text \<open>
  On the fresh dictionary, whose cursor is at \<^verbatim>\<open>INDEX\<close>: \<^verbatim>\<open>TOUCH_INDEX\<close> is
  accepted and moves the cursor to 1, \<^verbatim>\<open>TOUCH_MIDDLE\<close> is rejected, \<^verbatim>\<open>RELEASE\<close> is
  rejected since nothing is touched, the label \<^verbatim>\<open>OPEN\<close> is rejected, and the round of
  eight labels ends with one repetition.
\<close>

theorem thumb_opposition_rule_witness:
  "\<not> sublist ''TOUCH_'' ''INDEX'' \<and> \<not> sublist ''TOUCH_'' ''MIDDLE'' \<and>
   update_state (init 0 0 0 0 0) 1 1 ''thumb_opposition'' ''TOUCH_INDEX'' =
     Inr (True, 0,
       (init 0 0 0 0 0)(''thumb_opposition'' \<mapsto>
          \<lparr>current_state = ''TOUCH_INDEX'', previous_state = ''TRACKING'',
           repetitions = 0, last_state_change = 1, sequence_index = Some 1,
           is_touching = Some True\<rparr>))
   \<and> update_state (init 0 0 0 0 0) 1 1 ''thumb_opposition'' ''TOUCH_MIDDLE'' =
       Inr (False, 0, init 0 0 0 0 0)
   \<and> update_state (init 0 0 0 0 0) 1 1 ''thumb_opposition'' ''RELEASE'' =
       Inr (False, 0, init 0 0 0 0 0)
   \<and> update_state (init 0 0 0 0 0) 1 1 ''thumb_opposition'' ''OPEN'' =
       Inr (False, 0, init 0 0 0 0 0)
   \<and> get_repetitions
        (foldl apply_update (init 0 0 0 0 0)
           [(1, 1, ''thumb_opposition'', ''TOUCH_INDEX''),
            (2, 2, ''thumb_opposition'', ''RELEASE''),
            (3, 3, ''thumb_opposition'', ''TOUCH_MIDDLE''),
            (4, 4, ''thumb_opposition'', ''RELEASE''),
            (5, 5, ''thumb_opposition'', ''TOUCH_RING''),
            (6, 6, ''thumb_opposition'', ''RELEASE''),
            (7, 7, ''thumb_opposition'', ''TOUCH_PINKY''),
            (8, 8, ''thumb_opposition'', ''RELEASE'')])
        ''thumb_opposition'' = 1"
  using thumb_opposition_rule[of "init 0 0 0 0 0"
      "\<lparr>current_state = ''TRACKING'', previous_state = ''TRACKING'', repetitions = 0,
        last_state_change = 0, sequence_index = Some 0, is_touching = Some False\<rparr>"
      "''INDEX''" 1 1 "''RELEASE''" 1 1 2 2 3 3 4 4 5 5 6 6 7 7 8 8]
    thumb_opposition_rule[of "init 0 0 0 0 0"
      "\<lparr>current_state = ''TRACKING'', previous_state = ''TRACKING'', repetitions = 0,
        last_state_change = 0, sequence_index = Some 0, is_touching = Some False\<rparr>"
      "''MIDDLE''" 1 1 "''OPEN''" 1 1 2 2 3 3 4 4 5 5 6 6 7 7 8 8]
  by (simp add: init_def get_sequence_index_def get_is_touching_def sublist_Cons_right)

text \<open>
  C5, as the claim states it, fails: \<^verbatim>\<open>reset\<close> stores the label \<^verbatim>\<open>OPEN\<close> for every
  exercise, which is not the label \<^verbatim>\<open>__init__\<close> gives \<^verbatim>\<open>abduction_adduction\<close>,
  \<^verbatim>\<open>thumb_opposition\<close> or \<^verbatim>\<open>finger_lifts\<close>.
\<close>

theorem reset_default_label_counterexample:
  "get_current_state (init 0 0 0 0 0) ''abduction_adduction'' = ''CLOSED'' \<and>
   get_current_state (reset (init 0 0 0 0 0) 1 ''abduction_adduction'')
     ''abduction_adduction'' = ''OPEN'' \<and>
   get_current_state (init 0 0 0 0 0) ''thumb_opposition'' = ''TRACKING'' \<and>
   get_current_state (reset (init 0 0 0 0 0) 1 ''thumb_opposition'')
     ''thumb_opposition'' = ''OPEN'' \<and>
   get_current_state (init 0 0 0 0 0) ''finger_lifts'' = ''NONE'' \<and>
   get_current_state (reset (init 0 0 0 0 0) 1 ''finger_lifts'') ''finger_lifts'' = ''OPEN''"
  by (simp add: get_current_state_def reset_def init_def)

text \<open>
  C5, amended.  For every exercise type of the enumeration and every reachable
  dictionary, right after \<^verbatim>\<open>reset\<close> the entry of that exercise is the four-key entry
  with current and previous label \<^verbatim>\<open>OPEN\<close>, count 0 and the clock reading of the
  reset; the cursor and the touching flag are absent, so that they read as 0 and
  false.  The label is \<^verbatim>\<open>OPEN\<close> for all five exercise types.
\<close>

theorem reset_yields_open:
  assumes "reachable S" and "exercise_type \<in> set exercise_types"
  shows "reset S t exercise_type exercise_type =
           Some \<lparr>current_state = ''OPEN'', previous_state = ''OPEN'', repetitions = 0,
                 last_state_change = t, sequence_index = None, is_touching = None\<rparr>
    \<and> get_repetitions (reset S t exercise_type) exercise_type = 0
    \<and> get_current_state (reset S t exercise_type) exercise_type = ''OPEN''"
proof -
  from assms have "exercise_type \<in> dom S"
    using reachable_ok states_ok_def by auto
  then show ?thesis
    by (simp add: reset_entry get_repetitions_def get_current_state_def)
qed

theorem reset_yields_open_witness:
  "reachable (init 0 0 0 0 0) \<and> ''thumb_opposition'' \<in> set exercise_types \<and>
   reset (init 0 0 0 0 0) 5 ''thumb_opposition'' ''thumb_opposition'' =
     Some \<lparr>current_state = ''OPEN'', previous_state = ''OPEN'', repetitions = 0,
           last_state_change = 5, sequence_index = None, is_touching = None\<rparr> \<and>
   get_repetitions (reset (init 0 0 0 0 0) 5 ''thumb_opposition'') ''thumb_opposition'' = 0 \<and>
   get_current_state (reset (init 0 0 0 0 0) 5 ''thumb_opposition'') ''thumb_opposition''
     = ''OPEN''"
proof -
  have r: "reachable (init 0 0 0 0 0)"
    by (rule reach_init)
  have m: "''thumb_opposition'' \<in> set exercise_types"
    by (simp add: exercise_types_def)
  from reset_yields_open[OF r m, of 5] r m show ?thesis
    by simp
qed

section \<open>Facts about the classifiers\<close>

subsection \<open>Palm size\<close>

lemma palm_size_short: "length landmarks < 10 \<Longrightarrow> palm_size landmarks = Inr 1"
  by (simp add: palm_size_def)

lemma palm_size_complete:
  assumes "10 \<le> length landmarks"
      and "(landmarks ! 0) ''x'' = Some x0" and "(landmarks ! 0) ''y'' = Some y0"
      and "(landmarks ! 9) ''x'' = Some x9" and "(landmarks ! 9) ''y'' = Some y9"
  shows "palm_size landmarks =
           Inr (max (sqrt ((x0 - x9)\<^sup>2 + (y0 - y9)\<^sup>2)) (1 / 1000000))"
proof -
  from assms(1) have "py_index landmarks 0 = Inr (landmarks ! 0)"
    and "py_index landmarks 9 = Inr (landmarks ! 9)"
    by (auto simp: py_index_def Let_def)
  with assms show ?thesis
    by (simp add: palm_size_def py_bind_def dist_2d_def getitem_def)
qed

lemma palm_size_floored: "palm_size landmarks = Inr v \<Longrightarrow> 1 / 1000000 \<le> v"
  by (auto simp: palm_size_def py_bind_def split: if_splits sum.splits)

text \<open>With ten or more landmarks, a missing \<^verbatim>\<open>x\<close> or \<^verbatim>\<open>y\<close> of the wrist or the
  middle finger base makes \<^verbatim>\<open>_palm_size\<close> raise.\<close>

lemma palm_size_missing_key:
  assumes "10 \<le> length landmarks"
      and "(landmarks ! 0) ''x'' = None \<or> (landmarks ! 0) ''y'' = None \<or>
           (landmarks ! 9) ''x'' = None \<or> (landmarks ! 9) ''y'' = None"
  shows "palm_size landmarks = Inl KeyError"
proof -
  from assms(1) have "py_index landmarks 0 = Inr (landmarks ! 0)"
    and "py_index landmarks 9 = Inr (landmarks ! 9)"
    by (auto simp: py_index_def Let_def)
  with assms show ?thesis
    by (auto simp: palm_size_def py_bind_def dist_2d_def getitem_def split: option.splits)
qed

subsection \<open>Short frames\<close>

lemma short_frame_fallback:
  assumes "length landmarks < 21"
  shows "AbductionAdduction_detect_state landmarks = Inr ''UNKNOWN''"
    and "FingerLifts_detect_state landmarks = Inr ''UNKNOWN''"
    and "ThumbOpposition_detect_state landmarks = Inr ''UNKNOWN''"
    and "HandOpenClose_detect_state landmarks = Inr ''TRANSITION''"
    and "Pinch_detect_state landmarks = Inr ''TRANSITION''"
  using assms
  by (simp_all add: AbductionAdduction_detect_state_def FingerLifts_detect_state_def
        ThumbOpposition_detect_state_def HandOpenClose_detect_state_def Pinch_detect_state_def)

subsection \<open>The two probes of the thumb opposition detector\<close>

lemma probe_thresholds:
  "detect_touch_target landmarks target_finger =
     (case target_distance landmarks target_finger of
        Inl e \<Rightarrow> Inl e | Inr d \<Rightarrow> Inr (d \<le> 22 / 100))"
  "detect_released landmarks target_finger =
     (case target_distance landmarks target_finger of
        Inl e \<Rightarrow> Inl e | Inr d \<Rightarrow> Inr (28 / 100 \<le> d))"
  by (simp_all add: detect_touch_target_def detect_released_def py_bind_def
        split: sum.splits)

subsection \<open>The concrete frames\<close>

lemma malformed_frame_nth:
  "length malformed_frame = 21" "malformed_frame \<noteq> []"
  "malformed_frame ! 0 = origin" "malformed_frame ! 4 = origin" "malformed_frame ! 6 = origin"
  "malformed_frame ! 9 = origin" "malformed_frame ! 12 = origin"
  "malformed_frame ! 8 = [''x'' \<mapsto> 0, ''z'' \<mapsto> 0]"
  by (simp_all add: malformed_frame_def nth_list_update)

lemma malformed_frame_palm: "palm_size malformed_frame = Inr (1 / 1000000)"
  by (simp add: palm_size_def py_index_def malformed_frame_nth py_bind_def dist_2d_def
        getitem_def origin_def)

lemma sqrt_sixteenth: "sqrt (1 / 16) = 1 / 4"
  by (rule real_sqrt_unique) (simp_all add: power2_eq_square)

lemma band_frame_nth:
  "length band_frame = 21"
  "band_frame ! 0 = origin" "band_frame ! 4 = origin"
  "band_frame ! 9 = [''x'' \<mapsto> 0, ''y'' \<mapsto> 1, ''z'' \<mapsto> 0]"
  "band_frame ! 8 = [''x'' \<mapsto> 1 / 4, ''y'' \<mapsto> 0, ''z'' \<mapsto> 0]"
  "band_frame ! 12 = [''x'' \<mapsto> 1 / 4, ''y'' \<mapsto> 0, ''z'' \<mapsto> 0]"
  "band_frame ! 16 = [''x'' \<mapsto> 1 / 4, ''y'' \<mapsto> 0, ''z'' \<mapsto> 0]"
  "band_frame ! 20 = [''x'' \<mapsto> 1 / 4, ''y'' \<mapsto> 0, ''z'' \<mapsto> 0]"
  by (simp_all add: band_frame_def nth_list_update)

lemma band_frame_palm: "palm_size band_frame = Inr 1"
  by (simp add: palm_size_def py_index_def band_frame_nth py_bind_def dist_2d_def
        getitem_def origin_def)

lemma band_frame_distance:
  "target_distance band_frame ''INDEX'' = Inr (1 / 4)"
  "target_distance band_frame ''MIDDLE'' = Inr (1 / 4)"
  "target_distance band_frame ''RING'' = Inr (1 / 4)"
  "target_distance band_frame ''PINKY'' = Inr (1 / 4)"
  by (simp_all add: target_distance_def band_frame_palm py_index_def band_frame_nth
        py_bind_def dist_2d_def getitem_def finger_tips_def py_div_def origin_def
        sqrt_sixteenth)

lemma band_frame_label:
  "thumb_opposition_label (init t_oc t_pi t_aa t_to t_fl) band_frame = Inr ''RELEASE''"
  by (simp add: thumb_opposition_label_def init_def get_sequence_index_def py_index_def
        py_bind_def detect_touch_target_def band_frame_distance)

subsection \<open>When the caller labels a frame as released\<close>

lemma open_frame_nth:
  "length open_frame = 21"
  "open_frame ! 0 = origin" "open_frame ! 4 = origin"
  "open_frame ! 9 = [''x'' \<mapsto> 0, ''y'' \<mapsto> 1, ''z'' \<mapsto> 0]"
  "open_frame ! 8 = [''x'' \<mapsto> 1, ''y'' \<mapsto> 0, ''z'' \<mapsto> 0]"
  "open_frame ! 12 = [''x'' \<mapsto> 1, ''y'' \<mapsto> 0, ''z'' \<mapsto> 0]"
  "open_frame ! 16 = [''x'' \<mapsto> 1, ''y'' \<mapsto> 0, ''z'' \<mapsto> 0]"
  "open_frame ! 20 = [''x'' \<mapsto> 1, ''y'' \<mapsto> 0, ''z'' \<mapsto> 0]"
  by (simp_all add: open_frame_def nth_list_update)

lemma open_frame_palm: "palm_size open_frame = Inr 1"
  by (simp add: palm_size_def py_index_def open_frame_nth py_bind_def dist_2d_def
        getitem_def origin_def)

lemma open_frame_distance:
  "target_distance open_frame ''INDEX'' = Inr 1"
  "target_distance open_frame ''MIDDLE'' = Inr 1"
  "target_distance open_frame ''RING'' = Inr 1"
  "target_distance open_frame ''PINKY'' = Inr 1"
  by (simp_all add: target_distance_def open_frame_palm py_index_def open_frame_nth
        py_bind_def dist_2d_def getitem_def finger_tips_def py_div_def origin_def)

text \<open>The probing loop ends with \<^verbatim>\<open>touched\<close> still \<^verbatim>\<open>None\<close> exactly when no
  probe answered true.\<close>

lemma probe_None_iff:
  "probe landmarks None fs = None \<longleftrightarrow>
     (\<forall>g \<in> set fs. detect_touch_target landmarks g \<noteq> Inr True)"
  by (induction fs) (auto split: sum.splits bool.splits)

lemma release_iff_no_touch:
  assumes "S ''thumb_opposition'' = Some es"
      and "0 \<le> get_sequence_index es" and "get_sequence_index es < 4"
  shows "thumb_opposition_label S landmarks = Inr ''RELEASE'' \<longleftrightarrow>
           (\<forall>g \<in> set [''INDEX'', ''MIDDLE'', ''RING'', ''PINKY''].
              detect_touch_target landmarks g \<noteq> Inr True)"
proof -
  let ?seq = "[''INDEX'', ''MIDDLE'', ''RING'', ''PINKY'']"
  from assms(2,3) obtain expected where e: "py_index ?seq (get_sequence_index es) = Inr expected"
    by (auto simp: py_index_def)
  have "thumb_opposition_label S landmarks = Inr ''RELEASE'' \<longleftrightarrow>
          probe landmarks None ?seq = None"
    using assms(1) e
    by (cases "probe landmarks None ?seq")
       (auto simp: thumb_opposition_label_def py_bind_def Let_def)
  then show ?thesis
    by (simp only: probe_None_iff)
qed

lemma release_iff_beyond_touch:
  assumes "S ''thumb_opposition'' = Some es"
      and "0 \<le> get_sequence_index es" and "get_sequence_index es < 4"
      and "\<forall>g \<in> set [''INDEX'', ''MIDDLE'', ''RING'', ''PINKY''].
             target_distance landmarks g = Inr (d g)"
  shows "thumb_opposition_label S landmarks = Inr ''RELEASE'' \<longleftrightarrow>
           (\<forall>g \<in> set [''INDEX'', ''MIDDLE'', ''RING'', ''PINKY'']. 22 / 100 < d g)"
proof -
  have "thumb_opposition_label S landmarks = Inr ''RELEASE'' \<longleftrightarrow>
           (\<forall>g \<in> set [''INDEX'', ''MIDDLE'', ''RING'', ''PINKY''].
              detect_touch_target landmarks g \<noteq> Inr True)"
    using assms(1-3) by (rule release_iff_no_touch[of S es landmarks])
  with assms(4) show ?thesis
    by (simp add: probe_thresholds not_le)
qed

section \<open>Claims about the classifiers\<close>

text \<open>
  C6 fails on the code.  The frame \<open>malformed_frame\<close> has 21 landmarks, one of them
  without its \<^verbatim>\<open>y\<close> key.  On it \<^verbatim>\<open>detect_state\<close> of the finger lifts detector and
  of the abduction/adduction detector raise \<^verbatim>\<open>KeyError\<close>, where the open/close and
  the pinch detector catch the same error and return their fallback label; the
  thumb opposition detector, which reads no landmark, returns \<^verbatim>\<open>TRACKING\<close>.
\<close>

theorem detect_state_malformed_frame:
  "length malformed_frame = 21 \<and>
   FingerLifts_detect_state malformed_frame = Inl KeyError \<and>
   AbductionAdduction_detect_state malformed_frame = Inl KeyError \<and>
   HandOpenClose_detect_state malformed_frame = Inr ''TRANSITION'' \<and>
   Pinch_detect_state malformed_frame = Inr ''TRANSITION'' \<and>
   ThumbOpposition_detect_state malformed_frame = Inr ''TRACKING''"
proof (intro conjI)
  show "length malformed_frame = 21"
    by (rule malformed_frame_nth(1))
  show "FingerLifts_detect_state malformed_frame = Inl KeyError"
    by (simp add: FingerLifts_detect_state_def malformed_frame_palm fingers_def py_index_def
          malformed_frame_nth py_bind_def getitem_def origin_def)
  show "AbductionAdduction_detect_state malformed_frame = Inl KeyError"
    by (simp add: AbductionAdduction_detect_state_def calculate_finger_spread_def
          adjacent_gap_def malformed_frame_palm py_index_def malformed_frame_nth py_bind_def
          dist_2d_def getitem_def origin_def)
  show "HandOpenClose_detect_state malformed_frame = Inr ''TRANSITION''"
    by (simp add: HandOpenClose_detect_state_def except_transition_def py_index_def
          malformed_frame_nth py_bind_def calculate_distance_def getitem_def origin_def)
  show "Pinch_detect_state malformed_frame = Inr ''TRANSITION''"
    by (simp add: Pinch_detect_state_def except_transition_def py_index_def
          malformed_frame_nth py_bind_def calculate_distance_def getitem_def origin_def)
  show "ThumbOpposition_detect_state malformed_frame = Inr ''TRACKING''"
    by (simp add: ThumbOpposition_detect_state_def malformed_frame_nth)
qed

text \<open>
  C7, as the claim states it, fails.  On \<open>band_frame\<close> every fingertip is at
  normalized distance 0.25 from the thumb tip, strictly between the two thresholds:
  no finger is touched, none is released, and the label \<^verbatim>\<open>analyze\<close> hands to the
  state manager is \<^verbatim>\<open>RELEASE\<close>.
\<close>

theorem release_label_inside_band:
  "length band_frame = 21 \<and>
   target_distance band_frame ''INDEX'' = Inr (1 / 4) \<and>
   target_distance band_frame ''MIDDLE'' = Inr (1 / 4) \<and>
   target_distance band_frame ''RING'' = Inr (1 / 4) \<and>
   target_distance band_frame ''PINKY'' = Inr (1 / 4) \<and>
   (22 / 100 < (1 / 4 :: real) \<and> (1 / 4 :: real) < 28 / 100) \<and>
   detect_touch_target band_frame ''INDEX'' = Inr False \<and>
   detect_released band_frame ''INDEX'' = Inr False \<and>
   thumb_opposition_label (init 0 0 0 0 0) band_frame = Inr ''RELEASE''"
  by (simp add: band_frame_nth band_frame_distance band_frame_label probe_thresholds)

text \<open>
  C7, amended.  The touch probe of the detector answers true exactly when the
  palm-normalized planar distance from the thumb tip to the target fingertip is at
  most 0.22, the release probe exactly when it is at least 0.28.  The caller probes
  \<^verbatim>\<open>INDEX\<close>, \<^verbatim>\<open>MIDDLE\<close>, \<^verbatim>\<open>RING\<close>, \<^verbatim>\<open>PINKY\<close> in order with the touch probe only,
  and the label is \<^verbatim>\<open>RELEASE\<close> exactly when no touch probe answers true: on a frame
  where the four distances are defined, exactly when each of them exceeds 0.22.
  The release threshold plays no part in the label, which is \<^verbatim>\<open>RELEASE\<close> inside
  the band between 0.22 and 0.28 as well.
\<close>

theorem release_label_rule:
  assumes "S ''thumb_opposition'' = Some es"
      and "0 \<le> get_sequence_index es" and "get_sequence_index es < 4"
  shows "detect_touch_target landmarks target_finger =
           (case target_distance landmarks target_finger of
              Inl e \<Rightarrow> Inl e | Inr d \<Rightarrow> Inr (d \<le> 22 / 100))
    \<and> detect_released landmarks target_finger =
           (case target_distance landmarks target_finger of
              Inl e \<Rightarrow> Inl e | Inr d \<Rightarrow> Inr (28 / 100 \<le> d))
    \<and> (thumb_opposition_label S landmarks = Inr ''RELEASE'' \<longleftrightarrow>
          (\<forall>g \<in> set [''INDEX'', ''MIDDLE'', ''RING'', ''PINKY''].
             detect_touch_target landmarks g \<noteq> Inr True))
    \<and> ((\<forall>g \<in> set [''INDEX'', ''MIDDLE'', ''RING'', ''PINKY''].
           target_distance landmarks g = Inr (dist_of g)) \<longrightarrow>
        (thumb_opposition_label S landmarks = Inr ''RELEASE'' \<longleftrightarrow>
           (\<forall>g \<in> set [''INDEX'', ''MIDDLE'', ''RING'', ''PINKY'']. 22 / 100 < dist_of g)))"
  using assms probe_thresholds[of landmarks target_finger]
    release_iff_no_touch[of S es landmarks]
    release_iff_beyond_touch[of S es landmarks dist_of]
  by blast

text \<open>
  On \<open>open_frame\<close> with the fresh dictionary every fingertip is one palm length away
  from the thumb tip: beyond both thresholds, so the label is \<^verbatim>\<open>RELEASE\<close> and the
  index finger is released as well as not touched.
\<close>

theorem release_label_rule_witness:
  "target_distance open_frame ''INDEX'' = Inr 1 \<and>
   target_distance open_frame ''MIDDLE'' = Inr 1 \<and>
   target_distance open_frame ''RING'' = Inr 1 \<and>
   target_distance open_frame ''PINKY'' = Inr 1 \<and>
   detect_touch_target open_frame ''INDEX'' = Inr False \<and>
   detect_released open_frame ''INDEX'' = Inr True \<and>
   thumb_opposition_label (init 0 0 0 0 0) open_frame = Inr ''RELEASE''"
  using release_label_rule[of "init 0 0 0 0 0"
      "\<lparr>current_state = ''TRACKING'', previous_state = ''TRACKING'', repetitions = 0,
        last_state_change = 0, sequence_index = Some 0, is_touching = Some False\<rparr>"
      open_frame "''INDEX''" "\<lambda>g. 1"]
  by (simp add: init_def get_sequence_index_def open_frame_distance)

text \<open>
  C8, as the claim states it, fails: when the wrist and the middle finger base
  coincide, \<^verbatim>\<open>_palm_size\<close> returns the floor 1e-6 itself, which is not strictly
  greater than 1e-6.
\<close>

theorem palm_size_floor_counterexample:
  "palm_size (replicate 21 origin) = Inr (1 / 1000000) \<and>
   \<not> (1 / 1000000 < (1 / 1000000 :: real))"
  by (simp add: palm_size_def py_index_def py_bind_def dist_2d_def getitem_def origin_def)

text \<open>
  C8, amended.  \<^verbatim>\<open>_palm_size\<close> returns 1.0 for a frame of fewer than 10 landmarks;
  for a longer frame whose landmarks 0 and 9 carry \<^verbatim>\<open>x\<close> and \<^verbatim>\<open>y\<close> it returns their
  planar distance floored at 1e-6; and every value it returns is at least 1e-6
  (not strictly greater: coinciding landmarks give 1e-6 itself).
\<close>

theorem palm_size_floor:
  "(length landmarks < 10 \<longrightarrow> palm_size landmarks = Inr 1) \<and>
   (10 \<le> length landmarks \<and>
    (landmarks ! 0) ''x'' = Some x0 \<and> (landmarks ! 0) ''y'' = Some y0 \<and>
    (landmarks ! 9) ''x'' = Some x9 \<and> (landmarks ! 9) ''y'' = Some y9 \<longrightarrow>
      palm_size landmarks =
        Inr (max (sqrt ((x0 - x9)\<^sup>2 + (y0 - y9)\<^sup>2)) (1 / 1000000))) \<and>
   (\<forall>v. palm_size landmarks = Inr v \<longrightarrow> 1 / 1000000 \<le> v)"
  using palm_size_short[of landmarks] palm_size_complete[of landmarks x0 y0 x9 y9]
    palm_size_floored[of landmarks]
  by blast

text \<open>The empty frame, and a frame of ten landmarks whose palm is five units long.\<close>

theorem palm_size_floor_witness:
  "palm_size [] = Inr 1 \<and>
   palm_size ((replicate 10 origin)[9 := [''x'' \<mapsto> 3, ''y'' \<mapsto> 4]]) = Inr 5 \<and>
   1 / 1000000 \<le> (5 :: real)"
proof -
  have "sqrt ((0 - 3)\<^sup>2 + (0 - 4)\<^sup>2) = (5 :: real)"
    by (rule real_sqrt_unique) simp_all
  then show ?thesis
    using palm_size_floor[of "[]"]
      palm_size_floor[of "(replicate 10 origin)[9 := [''x'' \<mapsto> 3, ''y'' \<mapsto> 4]]" 0 0 3 4]
    by (simp add: origin_def)
qed

end
